theory Spec2Isabelle
  imports Main "HOL-Library.Word"
begin

section \<open>Values exchanged with the provider\<close>

text \<open>
  What \<open>orjson.loads\<close> produces and what the \<open>json=\<close> argument of the HTTP client
  accepts: \<open>None\<close>, booleans, integers, floats, strings, lists and dictionaries. A float
  is kept as its IEEE-754 binary64 bit pattern; a dictionary is an association list in
  insertion order, read with \<open>dict.get\<close>.
\<close>

datatype json =
    JNull
  | JBool bool
  | JInt int
  | JFloat "64 word"
  | JStr string
  | JList "json list"
  | JDict "(string \<times> json) list"

type_synonym dict = "(string \<times> json) list"

text \<open>\<open>d.get(k)\<close>: the value stored under \<open>k\<close>, or \<open>None\<close>.\<close>

definition dict_get :: "dict \<Rightarrow> string \<Rightarrow> json option" where
  "dict_get d k = map_of d k"

text \<open>
  Python truth value of the result of a \<open>dict.get\<close>: \<open>None\<close>, \<open>False\<close>, zero (for a
  float both \<open>0.0\<close> and \<open>-0.0\<close>, that is every bit but the sign bit clear), the empty
  string, the empty list and the empty dictionary are false; everything else is true.
\<close>

fun truthy :: "json option \<Rightarrow> bool" where
  "truthy None = False"
| "truthy (Some JNull) = False"
| "truthy (Some (JBool b)) = b"
| "truthy (Some (JInt i)) = (i \<noteq> 0)"
| "truthy (Some (JFloat w)) = (push_bit 1 w \<noteq> 0)"
| "truthy (Some (JStr s)) = (s \<noteq> [])"
| "truthy (Some (JList xs)) = (xs \<noteq> [])"
| "truthy (Some (JDict kvs)) = (kvs \<noteq> [])"

text \<open>Truth value of an optional string (a header value, a settings field).\<close>

fun truthy_str :: "string option \<Rightarrow> bool" where
  "truthy_str None = False"
| "truthy_str (Some s) = (s \<noteq> [])"

section \<open>Exceptions and log records\<close>

text \<open>
  An f-string is kept as the list of its pieces: the literal text and the interpolated
  values, in order.
\<close>

definition apostrophe :: string where
  "apostrophe = [CHR 0x27]"

datatype frag =
    Lit string
  | Txt string
  | Num nat
  | Flag bool
  | Val "json option"

type_synonym msg = "frag list"

datatype exn =
    TypeError msg
  | ValueError msg
  | PermissionError msg
  | KeyError msg
  | AttributeError msg
  | JSONDecodeError msg
  | HTTPStatusError nat string
  | OtherError msg

text \<open>
  The \<open>AttributeError\<close> of reading attribute \<open>attr\<close> of an object whose type is
  named \<open>tn\<close>.
\<close>

definition no_attribute :: "string \<Rightarrow> string \<Rightarrow> exn" where
  "no_attribute tn attr =
     AttributeError [Lit apostrophe, Txt tn, Lit (apostrophe @ '' object has no attribute '' @ apostrophe),
                     Txt attr, Lit apostrophe]"

datatype level = DEBUG | INFO | WARNING | ERROR | CRITICAL | EXCEPTION

text \<open>
  A call of the logger: its level and message. \<open>Log_exc\<close> is a message that ends with
  the interpolated exception. \<open>logger.exception\<close> is the level \<open>EXCEPTION\<close>.
\<close>

datatype log_entry =
    Log level msg
  | Log_exc level msg exn

section \<open>Data model\<close>

text \<open>
  Modelled from the spec: the enumeration \<open>TransactionStatus\<close> of \<open>src.core.enums\<close>
  is not among the sources. The spec gives it as COMPLETED, CANCELED and other statuses
  defined elsewhere.
\<close>

datatype TransactionStatus = COMPLETED | CANCELED | Other_status string

text \<open>
  Modelled from the spec: the settings family of
  \<open>src.infrastructure.database.models.dto\<close> is not among the sources. The Platega
  variant carries \<open>merchant_id\<close> and \<open>api_secret\<close>, both optional in the record (the
  source checks them and silences the type checker where it reads them); every other
  variant, and an absent settings object, is known here by the name of its type only.
\<close>

datatype GatewaySettings =
    PlategaGatewaySettingsDto "string option" "string option"
  | Other_settings string

record PaymentGatewayDto =
  currency :: string
  settings :: GatewaySettings

record PaymentResult =
  payment_id :: "128 word"
  url :: string

text \<open>The HTTP client made at construction: its base URL and default headers.\<close>

record Client =
  base_url :: string
  client_headers :: "(string \<times> string) list"

record Response =
  status_code :: nat
  content :: string
  text_of :: string

text \<open>
  The inbound request: \<open>request.headers.get\<close> as a lookup by header name, and the raw
  body.
\<close>

record Request =
  headers :: "string \<Rightarrow> string option"
  body :: string

text \<open>
  The adapter after \<open>super().__init__(gateway, bot, config)\<close> and the creation of the
  client.
\<close>

record ('b, 'c) PlategaGateway =
  data :: PaymentGatewayDto
  bot :: 'b
  config :: 'c
  client :: Client

text \<open>
  Library functions and collaborators that the module calls and that are not part of it:
  \<^item> \<open>uuid_of_str\<close>: \<open>uuid.UUID\<close> on a string, the message of its \<open>ValueError\<close> on
    the left;
  \<^item> \<open>float_of_str\<close>: \<open>float\<close> on a string, the message of its \<open>ValueError\<close> on the
    left;
  \<^item> \<open>json_loads\<close>: \<open>orjson.loads\<close>, the message of its \<open>JSONDecodeError\<close> on the
    left;
  \<^item> \<open>str_of_json\<close>: \<open>str\<close> on a value that is not a string;
  \<^item> \<open>str_of_decimal\<close>: \<open>str\<close> on the \<open>Decimal\<close> amount;
  \<^item> \<open>get_bot_redirect_url\<close> and \<open>get_webhook_data\<close>: the methods
    \<open>_get_bot_redirect_url\<close> and \<open>_get_webhook_data\<close> of the base class;
  \<^item> \<open>http_post\<close>: \<open>AsyncClient.post\<close> with a path and a JSON payload.
\<close>

record ('b, 'd) env =
  uuid_of_str :: "string \<Rightarrow> string + 128 word"
  float_of_str :: "string \<Rightarrow> string + 64 word"
  json_loads :: "string \<Rightarrow> string + json"
  str_of_json :: "json \<Rightarrow> string"
  str_of_decimal :: "'d \<Rightarrow> string"
  get_bot_redirect_url :: "'b \<Rightarrow> exn + string"
  get_webhook_data :: "Request \<Rightarrow> exn + dict"
  http_post :: "Client \<Rightarrow> string \<Rightarrow> json \<Rightarrow> exn + Response"

section \<open>Library behaviour the module relies on\<close>

text \<open>\<open>type(x).__name__\<close> of a value.\<close>

fun type_name :: "json \<Rightarrow> string" where
  "type_name JNull = ''NoneType''"
| "type_name (JBool b) = ''bool''"
| "type_name (JInt i) = ''int''"
| "type_name (JFloat w) = ''float''"
| "type_name (JStr s) = ''str''"
| "type_name (JList xs) = ''list''"
| "type_name (JDict kvs) = ''dict''"

text \<open>
  \<open>UUID(x)\<close>: a string is parsed; \<open>None\<close> (an absent key or a JSON null) is the
  missing argument (\<open>TypeError\<close>);
  any other value has no \<open>replace\<close> method (\<open>AttributeError\<close>).
\<close>

definition UUID :: "('b, 'd) env \<Rightarrow> json option \<Rightarrow> exn + 128 word" where
  "UUID E x =
     (case x of
        None \<Rightarrow> Inl (TypeError [Lit ''one of the hex, bytes, bytes_le, fields, or int arguments must be given''])
      | Some JNull \<Rightarrow> Inl (TypeError [Lit ''one of the hex, bytes, bytes_le, fields, or int arguments must be given''])
      | Some (JStr s) \<Rightarrow>
          (case uuid_of_str E s of
             Inl m \<Rightarrow> Inl (ValueError [Lit m])
           | Inr u \<Rightarrow> Inr u)
      | Some v \<Rightarrow> Inl (no_attribute (type_name v) ''replace''))"

text \<open>\<open>str(x)\<close> on a value taken from a dictionary: a string is returned as it is.\<close>

definition py_str :: "('b, 'd) env \<Rightarrow> json \<Rightarrow> string" where
  "py_str E v = (case v of JStr s \<Rightarrow> s | _ \<Rightarrow> str_of_json E v)"

text \<open>\<open>response.raise_for_status()\<close>: every status outside 200..299 raises.\<close>

definition raise_for_status :: "Response \<Rightarrow> exn option" where
  "raise_for_status response =
     (if 200 \<le> status_code response \<and> status_code response < 300 then None
      else Some (HTTPStatusError (status_code response) (text_of response)))"

text \<open>
  Modelled from the spec: \<open>_make_client\<close> of the base class is not among the sources;
  it initializes an HTTP client scoped to the base endpoint with the given headers.
\<close>

definition make_client :: "string \<Rightarrow> (string \<times> string) list \<Rightarrow> Client" where
  "make_client base hs = \<lparr>base_url = base, client_headers = hs\<rparr>"

section \<open>The Platega gateway\<close>

definition API_BASE :: string where
  "API_BASE = ''https://app.platega.io''"

definition DEFAULT_PAYMENT_METHOD :: int where
  "DEFAULT_PAYMENT_METHOD = 2"

text \<open>
  \<open>__init__\<close>. The result is the adapter or the exception raised, together with the
  clients that \<open>_make_client\<close> created on the way.
\<close>

definition init :: "PaymentGatewayDto \<Rightarrow> 'b \<Rightarrow> 'c \<Rightarrow> (exn + ('b, 'c) PlategaGateway) \<times> Client list" where
  "init gateway b c =
     (case settings gateway of
        Other_settings tn \<Rightarrow>
          (Inl (TypeError [Lit ''Invalid settings type: expected '', Txt ''PlategaGatewaySettingsDto'',
                           Lit '', got '', Txt tn]), [])
      | PlategaGatewaySettingsDto merchant_id api_secret \<Rightarrow>
          if \<not> truthy_str merchant_id \<or> \<not> truthy_str api_secret then
            (Inl (ValueError [Lit ''Platega gateway requires merchant_id and api_secret to be configured'']), [])
          else
            (let cl = make_client API_BASE
                        [(''X-MerchantId'', the merchant_id),
                         (''X-Secret'', the api_secret),
                         (''Content-Type'', ''application/json'')]
             in (Inr \<lparr>data = gateway, bot = b, config = c, client = cl\<rparr>, [cl])))"

text \<open>
  \<open>_verify_webhook_headers\<close>. Reading \<open>merchant_id\<close> of a settings object of another
  type, or \<open>get_secret_value\<close> of an absent secret, raises \<open>AttributeError\<close>.
\<close>

definition verify_webhook_headers ::
  "('b, 'c) PlategaGateway \<Rightarrow> Request \<Rightarrow> (exn + bool) \<times> log_entry list" where
  "verify_webhook_headers self request =
     (let received_merchant_id = headers request ''X-MerchantId'';
          received_secret = headers request ''X-Secret''
      in case settings (data self) of
           Other_settings tn \<Rightarrow>
             (Inl (no_attribute tn ''merchant_id''), [])
         | PlategaGatewaySettingsDto expected_merchant_id api_secret \<Rightarrow>
             (case api_secret of
                None \<Rightarrow> (Inl (no_attribute ''NoneType'' ''get_secret_value''), [])
              | Some expected_secret \<Rightarrow>
                  if \<not> truthy_str received_merchant_id \<or> \<not> truthy_str received_secret then
                    (Inr False, [Log WARNING [Lit ''Platega webhook missing required headers'']])
                  else
                    (let merchant_id_valid = (received_merchant_id = expected_merchant_id);
                         secret_valid = (received_secret = Some expected_secret)
                     in if \<not> merchant_id_valid \<or> \<not> secret_valid then
                          (Inr False,
                           [Log CRITICAL [Lit ''Platega webhook verification failed. '',
                                          Lit ''MerchantId match: '', Flag merchant_id_valid,
                                          Lit '', Secret match: '', Flag secret_valid]])
                        else (Inr True, []))))"

text \<open>\<open>handle_webhook\<close>: the pair returned or the exception raised, and the log.\<close>

definition handle_webhook ::
  "('b, 'd) env \<Rightarrow> ('b, 'c) PlategaGateway \<Rightarrow> Request
     \<Rightarrow> (exn + 128 word \<times> TransactionStatus) \<times> log_entry list" where
  "handle_webhook E self request =
     (let log0 = [Log DEBUG [Lit ''Received Platega webhook request'']] in
      case verify_webhook_headers self request of
        (Inl e, lg) \<Rightarrow> (Inl e, log0 @ lg)
      | (Inr ok, lg) \<Rightarrow>
          if \<not> ok then
            (Inl (PermissionError [Lit ''Platega webhook verification failed: invalid headers'']), log0 @ lg)
          else
            (case get_webhook_data E request of
               Inl e \<Rightarrow> (Inl e, log0 @ lg)
             | Inr webhook_data \<Rightarrow>
                 (let transaction_id_str = dict_get webhook_data ''id'' in
                  if \<not> truthy transaction_id_str then
                    (Inl (ValueError [Lit ''Required field 'id' is missing in webhook payload'']), log0 @ lg)
                  else
                    (let status = dict_get webhook_data ''status'' in
                     case UUID E transaction_id_str of
                       Inl e \<Rightarrow> (Inl e, log0 @ lg)
                     | Inr transaction_id \<Rightarrow>
                         (let done = (\<lambda>transaction_status.
                                (Inr (transaction_id, transaction_status),
                                 log0 @ lg @
                                 [Log INFO [Lit ''Platega webhook processed successfully. '',
                                            Lit ''Transaction ID: '', Val transaction_id_str,
                                            Lit '', Status: '', Val status]]))
                          in if status = Some (JStr ''CONFIRMED'') then done COMPLETED
                             else if status = Some (JStr ''CANCELED'') then done CANCELED
                             else if status = Some (JStr ''PENDING'') then
                               (Inl (ValueError [Lit ''Unexpected PENDING status in webhook. Transaction ID: '',
                                                 Val transaction_id_str]), log0 @ lg)
                             else
                               (Inl (ValueError [Lit ''Unsupported status: '', Val status]), log0 @ lg))))))"

text \<open>
  \<open>_create_payment_payload\<close>: the redirect URL is awaited first, then the dictionary
  is built, converting the amount.
\<close>

definition create_payment_payload ::
  "('b, 'd) env \<Rightarrow> ('b, 'c) PlategaGateway \<Rightarrow> string \<Rightarrow> string \<Rightarrow> string \<Rightarrow> exn + json" where
  "create_payment_payload E self amount order_id description =
     (case get_bot_redirect_url E (bot self) of
        Inl e \<Rightarrow> Inl e
      | Inr return_url \<Rightarrow>
          (case float_of_str E amount of
             Inl m \<Rightarrow> Inl (ValueError [Lit m])
           | Inr amount_float \<Rightarrow>
               Inr (JDict
                 [(''paymentMethod'', JInt DEFAULT_PAYMENT_METHOD),
                  (''paymentDetails'',
                     JDict [(''amount'', JFloat amount_float),
                            (''currency'', JStr (currency (data self)))]),
                  (''description'', JStr description),
                  (''return'', JStr return_url),
                  (''failedUrl'', JStr return_url),
                  (''payload'', JStr order_id)])))"

text \<open>
  \<open>_get_payment_data\<close>. \<open>data.get\<close> on a value that is not a dictionary raises
  \<open>AttributeError\<close>.
\<close>

definition get_payment_data ::
  "('b, 'd) env \<Rightarrow> json \<Rightarrow> string \<Rightarrow> (exn + PaymentResult) \<times> log_entry list" where
  "get_payment_data E data_json order_id =
     (let log0 = [Log DEBUG [Lit ''Processing Platega payment response. Order ID: '', Txt order_id]] in
      case data_json of
        JDict d \<Rightarrow>
          (let transaction_id_str = dict_get d ''transactionId'' in
           if \<not> truthy transaction_id_str then
             (Inl (KeyError [Lit (''Invalid response from Platega API: missing 'transactionId'' @ apostrophe)]), log0)
           else
             (let redirect_url = dict_get d ''redirect'' in
              if \<not> truthy redirect_url then
                (Inl (KeyError [Lit (''Invalid response from Platega API: missing 'redirect'' @ apostrophe)]), log0)
              else
                (case UUID E transaction_id_str of
                   Inl e \<Rightarrow> (Inl e, log0)
                 | Inr u \<Rightarrow> (Inr \<lparr>payment_id = u, url = py_str E (the redirect_url)\<rparr>, log0))))
      | v \<Rightarrow> (Inl (no_attribute (type_name v) ''get''), log0))"

text \<open>
  The \<open>except\<close> clauses of \<open>handle_create_payment\<close>: what is logged before the
  exception is raised again.
\<close>

fun on_error :: "exn \<Rightarrow> log_entry list" where
  "on_error (HTTPStatusError code txt) =
     [Log ERROR [Lit ''HTTP error creating Platega payment. '', Lit (''Status: '' @ apostrophe), Num code,
                 Lit (apostrophe @ '', Body: ''), Txt txt]]"
| "on_error (KeyError m) =
     [Log_exc ERROR [Lit ''Failed to parse Platega response. Error: ''] (KeyError m)]"
| "on_error (JSONDecodeError m) =
     [Log_exc ERROR [Lit ''Failed to parse Platega response. Error: ''] (JSONDecodeError m)]"
| "on_error e =
     [Log_exc EXCEPTION [Lit ''An unexpected error occurred while creating Platega payment: ''] e]"

text \<open>
  \<open>handle_create_payment\<close>. \<open>order_id\<close> is the value of \<open>str(uuid.uuid4())\<close> drawn
  by this call. The result is the payment or the exception raised, the log, and the
  requests sent to the provider (path and payload), in order.
\<close>

definition handle_create_payment ::
  "('b, 'd) env \<Rightarrow> ('b, 'c) PlategaGateway \<Rightarrow> string \<Rightarrow> 'd \<Rightarrow> string
     \<Rightarrow> (exn + PaymentResult) \<times> log_entry list \<times> (string \<times> json) list" where
  "handle_create_payment E self order_id amount details =
     (case create_payment_payload E self (str_of_decimal E amount) order_id details of
        Inl e \<Rightarrow> (Inl e, [], [])
      | Inr payload \<Rightarrow>
          (let sent = [(''transaction/process'', payload)] in
           case http_post E (client self) ''transaction/process'' payload of
             Inl e \<Rightarrow> (Inl e, on_error e, sent)
           | Inr response \<Rightarrow>
               (case raise_for_status response of
                  Some e \<Rightarrow> (Inl e, on_error e, sent)
                | None \<Rightarrow>
                    (case json_loads E (content response) of
                       Inl m \<Rightarrow> (Inl (JSONDecodeError [Lit m]), on_error (JSONDecodeError [Lit m]), sent)
                     | Inr data_json \<Rightarrow>
                         (case get_payment_data E data_json order_id of
                            (Inl e, lg) \<Rightarrow> (Inl e, lg @ on_error e, sent)
                          | (Inr r, lg) \<Rightarrow> (Inr r, lg, sent))))))"

section \<open>A concrete environment\<close>

text \<open>
  One provider, one adapter and a few requests, on which the theorems below are
  exercised. The environment answers every webhook with the body \<open>d\<close>, every POST with
  \<open>response\<close> and every JSON decoding with \<open>loaded\<close>.
\<close>

definition sample_uuid_of_str :: "string \<Rightarrow> string + 128 word" where
  "sample_uuid_of_str s =
     (if s = ''123e4567-e89b-12d3-a456-426614174000'' then Inr 0x123e4567e89b12d3a456426614174000
      else Inl ''badly formed hexadecimal UUID string'')"

definition sample_float_of_str :: "string \<Rightarrow> string + 64 word" where
  "sample_float_of_str s =
     (if s = ''10.00'' then Inr 0x4024000000000000
      else Inl ''could not convert string to float'')"

definition sample_env :: "dict \<Rightarrow> Response \<Rightarrow> string + json \<Rightarrow> (unit, string) env" where
  "sample_env d response loaded =
     \<lparr>uuid_of_str = sample_uuid_of_str,
      float_of_str = sample_float_of_str,
      json_loads = (\<lambda>_. loaded),
      str_of_json = (\<lambda>_. ''?''),
      str_of_decimal = (\<lambda>a. a),
      get_bot_redirect_url = (\<lambda>_. Inr ''https://t.me/shop_bot''),
      get_webhook_data = (\<lambda>_. Inr d),
      http_post = (\<lambda>_ _ _. Inr response)\<rparr>"

definition sample_gateway :: PaymentGatewayDto where
  "sample_gateway =
     \<lparr>currency = ''RUB'',
      settings = PlategaGatewaySettingsDto (Some ''merchant-1'') (Some ''s3cret'')\<rparr>"

definition sample_self :: "(unit, unit) PlategaGateway" where
  "sample_self =
     \<lparr>data = sample_gateway, bot = (), config = (),
      client = make_client API_BASE
                 [(''X-MerchantId'', ''merchant-1''), (''X-Secret'', ''s3cret''),
                  (''Content-Type'', ''application/json'')]\<rparr>"

definition sample_request :: "string option \<Rightarrow> string option \<Rightarrow> Request" where
  "sample_request merchant secret =
     \<lparr>headers = (\<lambda>h. if h = ''X-MerchantId'' then merchant
                     else if h = ''X-Secret'' then secret else None),
      body = []\<rparr>"

definition good_request :: Request where
  "good_request = sample_request (Some ''merchant-1'') (Some ''s3cret'')"

definition sample_webhook :: "string \<Rightarrow> string \<Rightarrow> dict" where
  "sample_webhook i st = [(''id'', JStr i), (''status'', JStr st)]"

definition sample_response :: Response where
  "sample_response = \<lparr>status_code = 200, content = ''(body)'', text_of = ''(body)''\<rparr>"

definition sample_payload :: json where
  "sample_payload =
     JDict [(''paymentMethod'', JInt 2),
            (''paymentDetails'',
               JDict [(''amount'', JFloat 0x4024000000000000), (''currency'', JStr ''RUB'')]),
            (''description'', JStr ''order''),
            (''return'', JStr ''https://t.me/shop_bot''),
            (''failedUrl'', JStr ''https://t.me/shop_bot''),
            (''payload'', JStr ''0f8fad5b-d9cb-469f-a165-70867728950e'')]"

section \<open>Auxiliary facts\<close>

lemma init_Inr:
  assumes "init gateway b c = (Inr self, cls)"
  shows "\<exists>m s. settings (data self) = PlategaGatewaySettingsDto (Some m) (Some s) \<and> m \<noteq> [] \<and> s \<noteq> []
               \<and> data self = gateway \<and> cls = [client self]"
  using assms
  by (cases "settings gateway")
     (auto simp: init_def Let_def split: if_splits elim!: truthy_str.elims)

lemma sample_init:
  "init sample_gateway () () = (Inr sample_self, [client sample_self])"
  by (simp add: init_def sample_gateway_def sample_self_def Let_def)

lemma sample_verify:
  "verify_webhook_headers sample_self good_request = (Inr True, [])"
  by (simp add: verify_webhook_headers_def sample_self_def sample_gateway_def good_request_def
        sample_request_def Let_def)

section \<open>Webhook handling: the statuses returned\<close>

text \<open>
  C1. On an adapter built by \<open>__init__\<close>, a request whose headers \<open>X-MerchantId\<close> and
  \<open>X-Secret\<close> equal the configured credentials and whose body carries a non-empty
  string in \<open>id\<close> that parses as the UUID \<open>u\<close> makes \<open>handle_webhook\<close> return
  \<open>(u, COMPLETED)\<close> when the status is \<open>CONFIRMED\<close> and \<open>(u, CANCELED)\<close> when it
  is \<open>CANCELED\<close>. And whatever the environment, the adapter and the request, a status
  that \<open>handle_webhook\<close> returns is \<open>COMPLETED\<close> or \<open>CANCELED\<close>.
\<close>

theorem handle_webhook_status_mapping:
  assumes "init gateway b c = (Inr self, cls)"
    and "settings gateway =
           PlategaGatewaySettingsDto (headers request ''X-MerchantId'') (headers request ''X-Secret'')"
    and "get_webhook_data E request = Inr d"
    and "dict_get d ''id'' = Some (JStr t)"
    and "t \<noteq> []"
    and "uuid_of_str E t = Inr u"
  shows "(dict_get d ''status'' = Some (JStr ''CONFIRMED'')
            \<longrightarrow> fst (handle_webhook E self request) = Inr (u, COMPLETED))
       \<and> (dict_get d ''status'' = Some (JStr ''CANCELED'')
            \<longrightarrow> fst (handle_webhook E self request) = Inr (u, CANCELED))
       \<and> (\<forall>E' self' request' u' st.
            fst (handle_webhook (E' :: ('b, 'd) env) (self' :: ('b, 'c) PlategaGateway) request') = Inr (u', st)
              \<longrightarrow> st = COMPLETED \<or> st = CANCELED)"
proof -
  from init_Inr [OF assms(1)] obtain m s where
    st: "settings (data self) = PlategaGatewaySettingsDto (Some m) (Some s)"
    and ne: "m \<noteq> []" "s \<noteq> []" and dg: "data self = gateway"
    by blast
  from st dg assms(2) have hm: "headers request ''X-MerchantId'' = Some m"
    and hs: "headers request ''X-Secret'' = Some s"
    by simp_all
  have v: "verify_webhook_headers self request = (Inr True, [])"
    by (simp add: verify_webhook_headers_def st hm hs ne Let_def)
  have uu: "UUID E (Some (JStr t)) = Inr u"
    by (simp add: UUID_def assms(6))
  have a: "dict_get d ''status'' = Some (JStr ''CONFIRMED'')
             \<longrightarrow> fst (handle_webhook E self request) = Inr (u, COMPLETED)"
    by (simp add: handle_webhook_def v assms(3,4,5) uu Let_def)
  have b: "dict_get d ''status'' = Some (JStr ''CANCELED'')
             \<longrightarrow> fst (handle_webhook E self request) = Inr (u, CANCELED)"
    by (simp add: handle_webhook_def v assms(3,4,5) uu Let_def)
  have c: "\<forall>E' self' request' u' st.
            fst (handle_webhook (E' :: ('b, 'd) env) (self' :: ('b, 'c) PlategaGateway) request') = Inr (u', st)
              \<longrightarrow> st = COMPLETED \<or> st = CANCELED"
    by (auto simp: handle_webhook_def Let_def split: prod.splits sum.splits if_splits)
  from a b c show ?thesis by blast
qed

theorem handle_webhook_status_mapping_witness:
  "fst (handle_webhook
          (sample_env (sample_webhook ''123e4567-e89b-12d3-a456-426614174000'' ''CONFIRMED'')
             sample_response (Inl []))
          sample_self good_request)
     = Inr (0x123e4567e89b12d3a456426614174000, COMPLETED)
   \<and> fst (handle_webhook
          (sample_env (sample_webhook ''123e4567-e89b-12d3-a456-426614174000'' ''CANCELED'')
             sample_response (Inl []))
          sample_self good_request)
     = Inr (0x123e4567e89b12d3a456426614174000, CANCELED)"
proof -
  let ?t = "''123e4567-e89b-12d3-a456-426614174000''"
  let ?u = "0x123e4567e89b12d3a456426614174000 :: 128 word"
  have h2: "settings sample_gateway =
              PlategaGatewaySettingsDto (headers good_request ''X-MerchantId'')
                (headers good_request ''X-Secret'')"
    by (simp add: sample_gateway_def good_request_def sample_request_def)
  have h3: "get_webhook_data (sample_env (sample_webhook ?t st) sample_response (Inl [])) good_request
              = Inr (sample_webhook ?t st)" for st
    by (simp add: sample_env_def)
  have h4: "dict_get (sample_webhook ?t st) ''id'' = Some (JStr ?t)" for st
    by (simp add: dict_get_def sample_webhook_def)
  have h5: "?t \<noteq> []" by simp
  have h6: "uuid_of_str (sample_env (sample_webhook ?t st) sample_response (Inl [])) ?t = Inr ?u" for st
    by (simp add: sample_env_def sample_uuid_of_str_def)
  have s1: "dict_get (sample_webhook ?t ''CONFIRMED'') ''status'' = Some (JStr ''CONFIRMED'')"
    by (simp add: dict_get_def sample_webhook_def)
  have s2: "dict_get (sample_webhook ?t ''CANCELED'') ''status'' = Some (JStr ''CANCELED'')"
    by (simp add: dict_get_def sample_webhook_def)
  from handle_webhook_status_mapping [OF sample_init h2 h3 h4 h5 h6, of "''CONFIRMED''"] s1
  have a: "fst (handle_webhook (sample_env (sample_webhook ?t ''CONFIRMED'') sample_response (Inl []))
                  sample_self good_request) = Inr (?u, COMPLETED)"
    by blast
  from handle_webhook_status_mapping [OF sample_init h2 h3 h4 h5 h6, of "''CANCELED''"] s2
  have b: "fst (handle_webhook (sample_env (sample_webhook ?t ''CANCELED'') sample_response (Inl []))
                  sample_self good_request) = Inr (?u, CANCELED)"
    by blast
  from a b show ?thesis by blast
qed

section \<open>Webhook handling: header verification\<close>

text \<open>
  C2. On an adapter built by \<open>__init__\<close> with credentials \<open>merchant_id\<close> and
  \<open>api_secret\<close>:
  \<^item> header verification answers true or false, and it answers false exactly when
    \<open>X-MerchantId\<close> or \<open>X-Secret\<close> is absent or differs from the configured value;
  \<^item> when it answers false, \<open>handle_webhook\<close> raises \<open>PermissionError\<close>; when it
    answers true, \<open>handle_webhook\<close> raises no \<open>PermissionError\<close> of its own (none at
    all unless reading the body raises one);
  \<^item> when either header is absent or empty, the outcome is the refusal with the warning
    record and nothing else, the same for every configured value: nothing is compared;
  \<^item> an \<open>X-Secret\<close> that differs from the configured secret fails verification
    whether or not \<open>X-MerchantId\<close> matches;
  \<^item> when both headers carry a non-empty value and one of them differs from the
    configured value, the outcome is the refusal with the critical record, which holds the
    two comparison results.
\<close>

theorem webhook_header_verification:
  assumes "init gateway b c = (Inr self, cls)"
    and "settings gateway = PlategaGatewaySettingsDto merchant_id api_secret"
  shows "(fst (verify_webhook_headers self request) = Inr True
            \<or> fst (verify_webhook_headers self request) = Inr False)
       \<and> (fst (verify_webhook_headers self request) = Inr False
            \<longleftrightarrow> (headers request ''X-MerchantId'' = None \<or> headers request ''X-Secret'' = None
                 \<or> headers request ''X-MerchantId'' \<noteq> merchant_id
                 \<or> headers request ''X-Secret'' \<noteq> api_secret))
       \<and> (fst (verify_webhook_headers self request) = Inr False
            \<longrightarrow> fst (handle_webhook E self request)
                  = Inl (PermissionError [Lit ''Platega webhook verification failed: invalid headers'']))
       \<and> (fst (verify_webhook_headers self request) = Inr True
              \<and> (\<forall>m. get_webhook_data E request \<noteq> Inl (PermissionError m))
            \<longrightarrow> (\<forall>m. fst (handle_webhook E self request) \<noteq> Inl (PermissionError m)))
       \<and> (headers request ''X-MerchantId'' = None \<or> headers request ''X-MerchantId'' = Some []
              \<or> headers request ''X-Secret'' = None \<or> headers request ''X-Secret'' = Some []
            \<longrightarrow> verify_webhook_headers self request
                  = (Inr False, [Log WARNING [Lit ''Platega webhook missing required headers'']]))
       \<and> (headers request ''X-Secret'' \<noteq> api_secret
            \<longrightarrow> fst (verify_webhook_headers self request) = Inr False)
       \<and> (truthy_str (headers request ''X-MerchantId'') \<and> truthy_str (headers request ''X-Secret'')
              \<and> (headers request ''X-MerchantId'' \<noteq> merchant_id
                   \<or> headers request ''X-Secret'' \<noteq> api_secret)
            \<longrightarrow> verify_webhook_headers self request
                  = (Inr False,
                     [Log CRITICAL [Lit ''Platega webhook verification failed. '',
                                    Lit ''MerchantId match: '',
                                    Flag (headers request ''X-MerchantId'' = merchant_id),
                                    Lit '', Secret match: '',
                                    Flag (headers request ''X-Secret'' = api_secret)]]))"
proof -
  from init_Inr [OF assms(1)] assms(2) obtain m s where
    st: "settings (data self) = PlategaGatewaySettingsDto (Some m) (Some s)"
    and ne: "m \<noteq> []" "s \<noteq> []" and mi: "merchant_id = Some m" and se: "api_secret = Some s"
    by auto
  note vd = verify_webhook_headers_def Let_def st mi se
  have p1: "fst (verify_webhook_headers self request) = Inr True
              \<or> fst (verify_webhook_headers self request) = Inr False"
    by (simp add: vd)
  have p2: "fst (verify_webhook_headers self request) = Inr False
              \<longleftrightarrow> (headers request ''X-MerchantId'' = None \<or> headers request ''X-Secret'' = None
                   \<or> headers request ''X-MerchantId'' \<noteq> merchant_id
                   \<or> headers request ''X-Secret'' \<noteq> api_secret)"
    using ne
    by (cases "headers request ''X-MerchantId''"; cases "headers request ''X-Secret''")
       (auto simp: vd)
  have p3: "fst (verify_webhook_headers self request) = Inr False
              \<longrightarrow> fst (handle_webhook E self request)
                    = Inl (PermissionError [Lit ''Platega webhook verification failed: invalid headers''])"
    by (cases "verify_webhook_headers self request") (simp add: handle_webhook_def Let_def)
  have p4: "fst (verify_webhook_headers self request) = Inr True
                \<and> (\<forall>m. get_webhook_data E request \<noteq> Inl (PermissionError m))
              \<longrightarrow> (\<forall>m. fst (handle_webhook E self request) \<noteq> Inl (PermissionError m))"
    by (cases "verify_webhook_headers self request")
       (auto simp: handle_webhook_def Let_def UUID_def no_attribute_def
             split: sum.splits option.splits json.splits if_splits)
  have p5: "headers request ''X-MerchantId'' = None \<or> headers request ''X-MerchantId'' = Some []
              \<or> headers request ''X-Secret'' = None \<or> headers request ''X-Secret'' = Some []
              \<longrightarrow> verify_webhook_headers self request
                    = (Inr False, [Log WARNING [Lit ''Platega webhook missing required headers'']])"
    by (auto simp: vd)
  have p6: "headers request ''X-Secret'' \<noteq> api_secret
              \<longrightarrow> fst (verify_webhook_headers self request) = Inr False"
    using p2 by blast
  have p7: "truthy_str (headers request ''X-MerchantId'') \<and> truthy_str (headers request ''X-Secret'')
                \<and> (headers request ''X-MerchantId'' \<noteq> merchant_id
                     \<or> headers request ''X-Secret'' \<noteq> api_secret)
              \<longrightarrow> verify_webhook_headers self request
                    = (Inr False,
                       [Log CRITICAL [Lit ''Platega webhook verification failed. '',
                                      Lit ''MerchantId match: '',
                                      Flag (headers request ''X-MerchantId'' = merchant_id),
                                      Lit '', Secret match: '',
                                      Flag (headers request ''X-Secret'' = api_secret)]])"
    by (auto simp: vd)
  from p1 p2 p3 p4 p5 p6 p7 show ?thesis by blast
qed

theorem webhook_header_verification_witness:
  "verify_webhook_headers sample_self (sample_request None (Some ''s3cret''))
     = (Inr False, [Log WARNING [Lit ''Platega webhook missing required headers'']])
   \<and> verify_webhook_headers sample_self (sample_request (Some []) (Some ''s3cret''))
     = (Inr False, [Log WARNING [Lit ''Platega webhook missing required headers'']])
   \<and> verify_webhook_headers sample_self (sample_request (Some ''merchant-1'') (Some ''guess''))
     = (Inr False,
        [Log CRITICAL [Lit ''Platega webhook verification failed. '', Lit ''MerchantId match: '',
                       Flag True, Lit '', Secret match: '', Flag False]])
   \<and> fst (handle_webhook
            (sample_env (sample_webhook ''123e4567-e89b-12d3-a456-426614174000'' ''CONFIRMED'')
               sample_response (Inl []))
            sample_self (sample_request (Some ''merchant-1'') (Some ''guess'')))
     = Inl (PermissionError [Lit ''Platega webhook verification failed: invalid headers''])
   \<and> (\<forall>m. fst (handle_webhook
            (sample_env (sample_webhook ''123e4567-e89b-12d3-a456-426614174000'' ''CONFIRMED'')
               sample_response (Inl []))
            sample_self good_request)
     \<noteq> Inl (PermissionError m))"
proof -
  let ?E = "sample_env (sample_webhook ''123e4567-e89b-12d3-a456-426614174000'' ''CONFIRMED'')
              sample_response (Inl [])"
  have h2: "settings sample_gateway = PlategaGatewaySettingsDto (Some ''merchant-1'') (Some ''s3cret'')"
    by (simp add: sample_gateway_def)
  note w = webhook_header_verification [OF sample_init h2, where E = ?E]
  have a: "headers (sample_request None (Some ''s3cret'')) ''X-MerchantId'' = None"
    by (simp add: sample_request_def)
  have a': "headers (sample_request (Some []) (Some ''s3cret'')) ''X-MerchantId'' = Some []"
    by (simp add: sample_request_def)
  have b: "truthy_str (headers (sample_request (Some ''merchant-1'') (Some ''guess'')) ''X-MerchantId'')"
          "truthy_str (headers (sample_request (Some ''merchant-1'') (Some ''guess'')) ''X-Secret'')"
          "headers (sample_request (Some ''merchant-1'') (Some ''guess'')) ''X-Secret'' \<noteq> Some ''s3cret''"
          "headers (sample_request (Some ''merchant-1'') (Some ''guess'')) ''X-MerchantId''
             = Some ''merchant-1''"
    by (simp_all add: sample_request_def)
  have c: "\<forall>m. get_webhook_data ?E good_request \<noteq> Inl (PermissionError m)"
    by (simp add: sample_env_def)
  have c1: "verify_webhook_headers sample_self (sample_request None (Some ''s3cret''))
              = (Inr False, [Log WARNING [Lit ''Platega webhook missing required headers'']])"
    using w [of "sample_request None (Some ''s3cret'')"] a by blast
  have c1': "verify_webhook_headers sample_self (sample_request (Some []) (Some ''s3cret''))
              = (Inr False, [Log WARNING [Lit ''Platega webhook missing required headers'']])"
    using w [of "sample_request (Some []) (Some ''s3cret'')"] a' by blast
  have c2: "verify_webhook_headers sample_self (sample_request (Some ''merchant-1'') (Some ''guess''))
              = (Inr False,
                 [Log CRITICAL [Lit ''Platega webhook verification failed. '', Lit ''MerchantId match: '',
                                Flag True, Lit '', Secret match: '', Flag False]])"
    using w [of "sample_request (Some ''merchant-1'') (Some ''guess'')"] b by simp
  have c3: "fst (handle_webhook ?E sample_self (sample_request (Some ''merchant-1'') (Some ''guess'')))
              = Inl (PermissionError [Lit ''Platega webhook verification failed: invalid headers''])"
    using w [of "sample_request (Some ''merchant-1'') (Some ''guess'')"] b(3) by blast
  have c4: "\<forall>m. fst (handle_webhook ?E sample_self good_request) \<noteq> Inl (PermissionError m)"
    using w [of good_request] c sample_verify by simp
  from c1 c1' c2 c3 c4 show ?thesis by blast
qed

text \<open>
  A header that is present and empty is treated as a missing one. With the right
  \<open>X-MerchantId\<close> and an empty \<open>X-Secret\<close>, which differs from the configured secret,
  the refusal is logged at warning level and no critical record is written.
\<close>

theorem webhook_empty_secret_counterexample:
  "init sample_gateway () () = (Inr sample_self, [client sample_self])
   \<and> settings (data sample_self) = PlategaGatewaySettingsDto (Some ''merchant-1'') (Some ''s3cret'')
   \<and> headers (sample_request (Some ''merchant-1'') (Some [])) ''X-MerchantId'' = Some ''merchant-1''
   \<and> headers (sample_request (Some ''merchant-1'') (Some [])) ''X-Secret'' = Some []
   \<and> verify_webhook_headers sample_self (sample_request (Some ''merchant-1'') (Some []))
       = (Inr False, [Log WARNING [Lit ''Platega webhook missing required headers'']])"
proof -
  have s: "settings (data sample_self)
             = PlategaGatewaySettingsDto (Some ''merchant-1'') (Some ''s3cret'')"
    by (simp add: sample_self_def sample_gateway_def)
  have h: "headers (sample_request (Some ''merchant-1'') (Some [])) ''X-MerchantId''
             = Some ''merchant-1''"
          "headers (sample_request (Some ''merchant-1'') (Some [])) ''X-Secret'' = Some []"
    by (simp_all add: sample_request_def)
  have v: "verify_webhook_headers sample_self (sample_request (Some ''merchant-1'') (Some []))
             = (Inr False, [Log WARNING [Lit ''Platega webhook missing required headers'']])"
    by (simp add: verify_webhook_headers_def s h Let_def)
  from sample_init s h v show ?thesis
    by blast
qed

section \<open>Construction\<close>

text \<open>
  C3. Construction with a settings object that is not the Platega variant raises
  \<open>TypeError\<close>, whatever else the record holds (that check comes first); with the
  Platega variant and an absent or empty \<open>merchant_id\<close> or \<open>api_secret\<close> it raises
  \<open>ValueError\<close>; and whenever construction raises, no HTTP client has been created.
\<close>

theorem init_failures:
  "(settings gateway = Other_settings tn
      \<longrightarrow> init gateway b c
            = (Inl (TypeError [Lit ''Invalid settings type: expected '', Txt ''PlategaGatewaySettingsDto'',
                               Lit '', got '', Txt tn]), []))
   \<and> (settings gateway = PlategaGatewaySettingsDto merchant_id api_secret
        \<and> (merchant_id = None \<or> merchant_id = Some [] \<or> api_secret = None \<or> api_secret = Some [])
      \<longrightarrow> init gateway b c
            = (Inl (ValueError [Lit ''Platega gateway requires merchant_id and api_secret to be configured'']),
               []))
   \<and> (\<forall>e cls. init gateway b c = (Inl e, cls) \<longrightarrow> cls = [])"
proof -
  have a: "settings gateway = Other_settings tn
      \<longrightarrow> init gateway b c
            = (Inl (TypeError [Lit ''Invalid settings type: expected '', Txt ''PlategaGatewaySettingsDto'',
                               Lit '', got '', Txt tn]), [])"
    by (simp add: init_def)
  have b: "settings gateway = PlategaGatewaySettingsDto merchant_id api_secret
        \<and> (merchant_id = None \<or> merchant_id = Some [] \<or> api_secret = None \<or> api_secret = Some [])
      \<longrightarrow> init gateway b c
            = (Inl (ValueError [Lit ''Platega gateway requires merchant_id and api_secret to be configured'']),
               [])"
    by (auto simp: init_def)
  have c: "\<forall>e cls. init gateway b c = (Inl e, cls) \<longrightarrow> cls = []"
    by (auto simp: init_def Let_def split: GatewaySettings.splits if_splits)
  from a b c show ?thesis by blast
qed

theorem init_failures_witness:
  "init \<lparr>currency = ''RUB'', settings = Other_settings ''YookassaGatewaySettingsDto''\<rparr> () ()
     = (Inl (TypeError [Lit ''Invalid settings type: expected '', Txt ''PlategaGatewaySettingsDto'',
                        Lit '', got '', Txt ''YookassaGatewaySettingsDto'']), [])
   \<and> init \<lparr>currency = ''RUB'', settings = PlategaGatewaySettingsDto (Some ''merchant-1'') (Some [])\<rparr> () ()
     = (Inl (ValueError [Lit ''Platega gateway requires merchant_id and api_secret to be configured'']), [])
   \<and> init \<lparr>currency = ''RUB'', settings = PlategaGatewaySettingsDto None (Some ''s3cret'')\<rparr> () ()
     = (Inl (ValueError [Lit ''Platega gateway requires merchant_id and api_secret to be configured'']), [])"
  using init_failures [of "\<lparr>currency = ''RUB'', settings = Other_settings ''YookassaGatewaySettingsDto''\<rparr>"
                          "''YookassaGatewaySettingsDto''" "()" "()"]
        init_failures [of "\<lparr>currency = ''RUB'',
                             settings = PlategaGatewaySettingsDto (Some ''merchant-1'') (Some [])\<rparr>"
                          _ "()" "()" "Some ''merchant-1''" "Some []"]
        init_failures [of "\<lparr>currency = ''RUB'',
                             settings = PlategaGatewaySettingsDto None (Some ''s3cret'')\<rparr>"
                          _ "()" "()" None "Some ''s3cret''"]
  by simp

section \<open>Webhook handling: the body\<close>

text \<open>
  C6. On a request that passes header verification and whose body carries a non-empty
  string in \<open>id\<close>, every status other than \<open>CONFIRMED\<close> and \<open>CANCELED\<close> (no
  status, \<open>PENDING\<close>, any other string, any value that is not a string) makes
  \<open>handle_webhook\<close> raise a \<open>ValueError\<close>: no status is returned. With an \<open>id\<close>
  that parses as a UUID and the status \<open>PENDING\<close> it is the one that names the
  unexpected \<open>PENDING\<close> status. When the \<open>id\<close> is a true value that is not a string
  (a number, a list, a dictionary), no status is returned either, and the exception is the
  \<open>AttributeError\<close> that \<open>UUID\<close> raises on it, before the status is examined.
\<close>

theorem handle_webhook_other_status:
  assumes "fst (verify_webhook_headers self request) = Inr True"
    and "get_webhook_data E request = Inr d"
    and "truthy (dict_get d ''id'')"
    and "dict_get d ''status'' \<noteq> Some (JStr ''CONFIRMED'')"
    and "dict_get d ''status'' \<noteq> Some (JStr ''CANCELED'')"
  shows "(\<exists>e. fst (handle_webhook E self request) = Inl e)
       \<and> (\<forall>t. dict_get d ''id'' = Some (JStr t)
            \<longrightarrow> (\<exists>m. fst (handle_webhook E self request) = Inl (ValueError m)))
       \<and> (\<forall>t u. dict_get d ''id'' = Some (JStr t) \<and> uuid_of_str E t = Inr u
                  \<and> dict_get d ''status'' = Some (JStr ''PENDING'')
            \<longrightarrow> fst (handle_webhook E self request)
                  = Inl (ValueError [Lit ''Unexpected PENDING status in webhook. Transaction ID: '',
                                     Val (Some (JStr t))]))
       \<and> (\<forall>v. dict_get d ''id'' = Some v \<and> (\<forall>t. v \<noteq> JStr t)
            \<longrightarrow> fst (handle_webhook E self request) = Inl (no_attribute (type_name v) ''replace''))"
proof -
  obtain lg where v: "verify_webhook_headers self request = (Inr True, lg)"
    using assms(1) by (cases "verify_webhook_headers self request") simp
  note hd = handle_webhook_def Let_def v assms(2,3,4,5)
  have a: "\<exists>e. fst (handle_webhook E self request) = Inl e"
    by (simp add: hd split: sum.splits)
  have b: "\<forall>t. dict_get d ''id'' = Some (JStr t)
            \<longrightarrow> (\<exists>m. fst (handle_webhook E self request) = Inl (ValueError m))"
    by (simp add: hd UUID_def split: sum.splits)
  have c: "\<forall>t u. dict_get d ''id'' = Some (JStr t) \<and> uuid_of_str E t = Inr u
                  \<and> dict_get d ''status'' = Some (JStr ''PENDING'')
            \<longrightarrow> fst (handle_webhook E self request)
                  = Inl (ValueError [Lit ''Unexpected PENDING status in webhook. Transaction ID: '',
                                     Val (Some (JStr t))])"
    using assms(3) by (auto simp: handle_webhook_def Let_def v assms(2) UUID_def)
  have e: "fst (handle_webhook E self request) = Inl (no_attribute (type_name w) ''replace'')"
    if i: "dict_get d ''id'' = Some w" and n: "\<forall>t. w \<noteq> JStr t" for w
  proof -
    from assms(3) i have tw: "truthy (Some w)"
      by simp
    from tw n have "UUID E (Some w) = Inl (no_attribute (type_name w) ''replace'')"
      by (cases w) (simp_all add: UUID_def)
    with tw show ?thesis
      by (simp add: handle_webhook_def Let_def v assms(2) i)
  qed
  from a b c e show ?thesis by blast
qed

theorem handle_webhook_other_status_witness:
  "fst (handle_webhook
          (sample_env (sample_webhook ''123e4567-e89b-12d3-a456-426614174000'' ''PENDING'')
             sample_response (Inl []))
          sample_self good_request)
     = Inl (ValueError [Lit ''Unexpected PENDING status in webhook. Transaction ID: '',
                        Val (Some (JStr ''123e4567-e89b-12d3-a456-426614174000''))])
   \<and> (\<exists>m. fst (handle_webhook
          (sample_env (sample_webhook ''123e4567-e89b-12d3-a456-426614174000'' ''FOO'')
             sample_response (Inl []))
          sample_self good_request)
     = Inl (ValueError m))
   \<and> fst (handle_webhook
          (sample_env [(''id'', JList [JInt 1]), (''status'', JStr ''FOO'')] sample_response (Inl []))
          sample_self good_request)
     = Inl (no_attribute ''list'' ''replace'')"
proof -
  let ?t = "''123e4567-e89b-12d3-a456-426614174000''"
  let ?E = "\<lambda>st. sample_env (sample_webhook ?t st) sample_response (Inl [])"
  let ?dl = "[(''id'', JList [JInt 1]), (''status'', JStr ''FOO'')]"
  have h1: "fst (verify_webhook_headers sample_self good_request) = Inr True"
    by (simp add: sample_verify)
  have h2: "get_webhook_data (sample_env d sample_response (Inl [])) good_request = Inr d" for d
    by (simp add: sample_env_def)
  have i: "dict_get (sample_webhook ?t st) ''id'' = Some (JStr ?t)" for st
    by (simp add: dict_get_def sample_webhook_def)
  have h3: "truthy (dict_get (sample_webhook ?t st) ''id'')" for st
    by (simp add: i)
  have s: "dict_get (sample_webhook ?t st) ''status'' = Some (JStr st)" for st
    by (simp add: dict_get_def sample_webhook_def)
  have u: "uuid_of_str (?E st) ?t = Inr 0x123e4567e89b12d3a456426614174000" for st
    by (simp add: sample_env_def sample_uuid_of_str_def)
  have p4: "dict_get (sample_webhook ?t ''PENDING'') ''status'' \<noteq> Some (JStr ''CONFIRMED'')"
    and p5: "dict_get (sample_webhook ?t ''PENDING'') ''status'' \<noteq> Some (JStr ''CANCELED'')"
    and f4: "dict_get (sample_webhook ?t ''FOO'') ''status'' \<noteq> Some (JStr ''CONFIRMED'')"
    and f5: "dict_get (sample_webhook ?t ''FOO'') ''status'' \<noteq> Some (JStr ''CANCELED'')"
    by (simp_all add: s)
  have li: "dict_get ?dl ''id'' = Some (JList [JInt 1])"
    and l3: "truthy (dict_get ?dl ''id'')"
    and l4: "dict_get ?dl ''status'' \<noteq> Some (JStr ''CONFIRMED'')"
    and l5: "dict_get ?dl ''status'' \<noteq> Some (JStr ''CANCELED'')"
    by (simp_all add: dict_get_def)
  have ln: "\<forall>t. JList [JInt 1] \<noteq> JStr t"
    by simp
  have a: "fst (handle_webhook (?E ''PENDING'') sample_self good_request)
             = Inl (ValueError [Lit ''Unexpected PENDING status in webhook. Transaction ID: '',
                                Val (Some (JStr ?t))])"
    using handle_webhook_other_status [OF h1 h2 h3 p4 p5] i s u by blast
  have b: "\<exists>m. fst (handle_webhook (?E ''FOO'') sample_self good_request) = Inl (ValueError m)"
    using handle_webhook_other_status [OF h1 h2 h3 f4 f5] i by blast
  have c: "fst (handle_webhook (sample_env ?dl sample_response (Inl [])) sample_self good_request)
             = Inl (no_attribute (type_name (JList [JInt 1])) ''replace'')"
    using handle_webhook_other_status [OF h1 h2 l3 l4 l5] li ln by blast
  from a b c show ?thesis by simp
qed

text \<open>
  A body with valid headers, the number 123 in \<open>id\<close> and the status \<open>PENDING\<close>: the
  \<open>id\<close> is a true value, and the call ends in the \<open>AttributeError\<close> of \<open>UUID(123)\<close>,
  not in a \<open>ValueError\<close>.
\<close>

theorem handle_webhook_numeric_id_counterexample:
  "fst (verify_webhook_headers sample_self good_request) = Inr True
   \<and> truthy (dict_get [(''id'', JInt 123), (''status'', JStr ''PENDING'')] ''id'')
   \<and> fst (handle_webhook
            (sample_env [(''id'', JInt 123), (''status'', JStr ''PENDING'')] sample_response (Inl []))
            sample_self good_request)
       = Inl (AttributeError [Lit apostrophe, Txt ''int'',
                              Lit (apostrophe @ '' object has no attribute '' @ apostrophe),
                              Txt ''replace'', Lit apostrophe])"
  by (simp add: sample_verify handle_webhook_def Let_def sample_env_def dict_get_def UUID_def
        no_attribute_def)



text \<open>
  C9. On a request that passes header verification and whose body carries in \<open>id\<close> a
  non-empty string that parses as a UUID, a body with no \<open>status\<close> key is handled as
  any unsupported status is: the lookup gives \<open>None\<close>, the default arm is taken and
  \<open>handle_webhook\<close> raises the \<open>ValueError\<close> of the unsupported status, here with
  \<open>None\<close>; nothing else is logged. The default arm gives that same error, with the
  status found, for every status that is none of \<open>CONFIRMED\<close>, \<open>CANCELED\<close> and
  \<open>PENDING\<close>.
\<close>

theorem handle_webhook_no_status:
  assumes "verify_webhook_headers self request = (Inr True, lg)"
    and "get_webhook_data E request = Inr d"
    and "dict_get d ''id'' = Some (JStr t)"
    and "t \<noteq> []"
    and "uuid_of_str E t = Inr u"
  shows "(dict_get d ''status'' = None
            \<longrightarrow> handle_webhook E self request
                  = (Inl (ValueError [Lit ''Unsupported status: '', Val None]),
                     Log DEBUG [Lit ''Received Platega webhook request''] # lg))
       \<and> (dict_get d ''status'' \<noteq> Some (JStr ''CONFIRMED'')
              \<and> dict_get d ''status'' \<noteq> Some (JStr ''CANCELED'')
              \<and> dict_get d ''status'' \<noteq> Some (JStr ''PENDING'')
            \<longrightarrow> handle_webhook E self request
                  = (Inl (ValueError [Lit ''Unsupported status: '', Val (dict_get d ''status'')]),
                     Log DEBUG [Lit ''Received Platega webhook request''] # lg))"
  by (simp add: handle_webhook_def Let_def assms UUID_def)

theorem handle_webhook_no_status_witness:
  "handle_webhook
     (sample_env [(''id'', JStr ''123e4567-e89b-12d3-a456-426614174000'')] sample_response (Inl []))
     sample_self good_request
     = (Inl (ValueError [Lit ''Unsupported status: '', Val None]),
        [Log DEBUG [Lit ''Received Platega webhook request'']])
   \<and> handle_webhook
     (sample_env (sample_webhook ''123e4567-e89b-12d3-a456-426614174000'' ''FOO'')
        sample_response (Inl []))
     sample_self good_request
     = (Inl (ValueError [Lit ''Unsupported status: '', Val (Some (JStr ''FOO''))]),
        [Log DEBUG [Lit ''Received Platega webhook request'']])"
proof -
  let ?t = "''123e4567-e89b-12d3-a456-426614174000''"
  let ?d = "[(''id'', JStr ?t)]"
  let ?f = "sample_webhook ?t ''FOO''"
  have h2: "get_webhook_data (sample_env d sample_response (Inl [])) good_request = Inr d" for d
    by (simp add: sample_env_def)
  have h3: "dict_get ?d ''id'' = Some (JStr ?t)"
    and f3: "dict_get ?f ''id'' = Some (JStr ?t)"
    by (simp_all add: dict_get_def sample_webhook_def)
  have h4: "?t \<noteq> []"
    by simp
  have h5: "uuid_of_str (sample_env d sample_response (Inl [])) ?t
              = Inr 0x123e4567e89b12d3a456426614174000" for d
    by (simp add: sample_env_def sample_uuid_of_str_def)
  have n: "dict_get ?d ''status'' = None"
    by (simp add: dict_get_def)
  have fs: "dict_get ?f ''status'' = Some (JStr ''FOO'')"
    by (simp add: dict_get_def sample_webhook_def)
  have fo: "dict_get ?f ''status'' \<noteq> Some (JStr ''CONFIRMED'')
              \<and> dict_get ?f ''status'' \<noteq> Some (JStr ''CANCELED'')
              \<and> dict_get ?f ''status'' \<noteq> Some (JStr ''PENDING'')"
    by (simp add: fs)
  have a: "handle_webhook (sample_env ?d sample_response (Inl [])) sample_self good_request
             = (Inl (ValueError [Lit ''Unsupported status: '', Val None]),
                [Log DEBUG [Lit ''Received Platega webhook request'']])"
    using handle_webhook_no_status [OF sample_verify h2 h3 h4 h5] n by blast
  have b: "handle_webhook (sample_env ?f sample_response (Inl [])) sample_self good_request
             = (Inl (ValueError [Lit ''Unsupported status: '', Val (dict_get ?f ''status'')]),
                [Log DEBUG [Lit ''Received Platega webhook request'']])"
    using handle_webhook_no_status [OF sample_verify h2 f3 h4 h5] fo by blast
  from a b fs show ?thesis by simp
qed

text \<open>
  Two bodies with valid headers, a true \<open>id\<close> and no \<open>status\<close> key that do not reach
  the default arm: with the number 123 in \<open>id\<close> the call ends in the
  \<open>AttributeError\<close> of \<open>UUID(123)\<close>, and with a string that \<open>UUID\<close> rejects it ends
  in the \<open>ValueError\<close> of the parser, not in the one of the unsupported status.
\<close>

theorem handle_webhook_no_status_counterexample:
  "fst (verify_webhook_headers sample_self good_request) = Inr True
   \<and> truthy (dict_get [(''id'', JInt 123)] ''id'')
   \<and> dict_get [(''id'', JInt 123)] ''status'' = None
   \<and> fst (handle_webhook (sample_env [(''id'', JInt 123)] sample_response (Inl []))
            sample_self good_request)
       = Inl (AttributeError [Lit apostrophe, Txt ''int'',
                              Lit (apostrophe @ '' object has no attribute '' @ apostrophe),
                              Txt ''replace'', Lit apostrophe])
   \<and> truthy (dict_get [(''id'', JStr ''not-a-uuid'')] ''id'')
   \<and> dict_get [(''id'', JStr ''not-a-uuid'')] ''status'' = None
   \<and> fst (handle_webhook (sample_env [(''id'', JStr ''not-a-uuid'')] sample_response (Inl []))
            sample_self good_request)
       = Inl (ValueError [Lit ''badly formed hexadecimal UUID string''])"
  by (simp add: sample_verify handle_webhook_def Let_def sample_env_def dict_get_def UUID_def
        no_attribute_def sample_uuid_of_str_def)

text \<open>
  C10. On a request that passes header verification and whose body carries in \<open>id\<close> a
  non-empty string that \<open>UUID\<close> rejects, \<open>handle_webhook\<close> raises the
  \<open>ValueError\<close> of the UUID parser, whatever the status in the body is, \<open>CONFIRMED\<close>
  and \<open>CANCELED\<close> included; nothing is returned and no success is logged.
\<close>

theorem handle_webhook_bad_uuid:
  assumes "verify_webhook_headers self request = (Inr True, lg)"
    and "get_webhook_data E request = Inr d"
    and "dict_get d ''id'' = Some (JStr t)"
    and "t \<noteq> []"
    and "uuid_of_str E t = Inl m"
  shows "handle_webhook E self request
           = (Inl (ValueError [Lit m]), Log DEBUG [Lit ''Received Platega webhook request''] # lg)"
  by (simp add: handle_webhook_def Let_def assms UUID_def)

theorem handle_webhook_bad_uuid_witness:
  "handle_webhook (sample_env (sample_webhook ''not-a-uuid'' ''CONFIRMED'') sample_response (Inl []))
     sample_self good_request
     = (Inl (ValueError [Lit ''badly formed hexadecimal UUID string'']),
        [Log DEBUG [Lit ''Received Platega webhook request'']])
   \<and> handle_webhook (sample_env (sample_webhook ''not-a-uuid'' ''CANCELED'') sample_response (Inl []))
     sample_self good_request
     = (Inl (ValueError [Lit ''badly formed hexadecimal UUID string'']),
        [Log DEBUG [Lit ''Received Platega webhook request'']])"
proof -
  let ?E = "\<lambda>st. sample_env (sample_webhook ''not-a-uuid'' st) sample_response (Inl [])"
  have h2: "get_webhook_data (?E st) good_request = Inr (sample_webhook ''not-a-uuid'' st)" for st
    by (simp add: sample_env_def)
  have h3: "dict_get (sample_webhook ''not-a-uuid'' st) ''id'' = Some (JStr ''not-a-uuid'')" for st
    by (simp add: dict_get_def sample_webhook_def)
  have h4: "''not-a-uuid'' \<noteq> []"
    by simp
  have h5: "uuid_of_str (?E st) ''not-a-uuid'' = Inl ''badly formed hexadecimal UUID string''" for st
    by (simp add: sample_env_def sample_uuid_of_str_def)
  from handle_webhook_bad_uuid [OF sample_verify h2 [of "''CONFIRMED''"] h3 h4 h5]
       handle_webhook_bad_uuid [OF sample_verify h2 [of "''CANCELED''"] h3 h4 h5]
  show ?thesis by simp
qed

section \<open>Payment creation\<close>



text \<open>
  C4. When the payload was built, the POST was answered with a 2xx response, and the body
  decodes to a dictionary with a non-empty string in \<open>transactionId\<close> that parses as the
  UUID \<open>u\<close> and a non-empty string \<open>r\<close> in \<open>redirect\<close>, the result of
  \<open>create_payment\<close> has the id \<open>u\<close> and the url \<open>r\<close>, as it is. The order id drawn
  for the call has no part in the result: reading any response under two order ids gives
  the same outcome.
\<close>

theorem create_payment_result:
  assumes "create_payment_payload E self (str_of_decimal E amount) order_id details = Inr payload"
    and "http_post E (client self) ''transaction/process'' payload = Inr response"
    and "200 \<le> status_code response \<and> status_code response < 300"
    and "json_loads E (content response) = Inr (JDict d)"
    and "dict_get d ''transactionId'' = Some (JStr t)"
    and "t \<noteq> []"
    and "uuid_of_str E t = Inr u"
    and "dict_get d ''redirect'' = Some (JStr r)"
    and "r \<noteq> []"
  shows "fst (handle_create_payment E self order_id amount details) = Inr \<lparr>payment_id = u, url = r\<rparr>
       \<and> (\<forall>data_json o1 o2.
            fst (get_payment_data E data_json o1) = fst (get_payment_data E data_json o2))"
proof -
  have g: "get_payment_data E (JDict d) order_id
             = (Inr \<lparr>payment_id = u, url = r\<rparr>,
                [Log DEBUG [Lit ''Processing Platega payment response. Order ID: '', Txt order_id]])"
    by (simp add: get_payment_data_def Let_def assms(5,6,7,8,9) UUID_def py_str_def)
  have a: "fst (handle_create_payment E self order_id amount details) = Inr \<lparr>payment_id = u, url = r\<rparr>"
    by (simp add: handle_create_payment_def Let_def assms(1,2,3,4) raise_for_status_def g)
  have b: "\<forall>data_json o1 o2.
            fst (get_payment_data E data_json o1) = fst (get_payment_data E data_json o2)"
    by (auto simp: get_payment_data_def Let_def split: json.splits sum.splits)
  from a b show ?thesis by blast
qed

theorem create_payment_result_witness:
  "fst (handle_create_payment
          (sample_env [] sample_response
             (Inr (JDict [(''transactionId'', JStr ''123e4567-e89b-12d3-a456-426614174000''),
                          (''redirect'', JStr ''https://pay.example/x'')])))
          sample_self ''0f8fad5b-d9cb-469f-a165-70867728950e'' ''10.00'' ''order'')
     = Inr \<lparr>payment_id = 0x123e4567e89b12d3a456426614174000, url = ''https://pay.example/x''\<rparr>"
proof -
  let ?d = "[(''transactionId'', JStr ''123e4567-e89b-12d3-a456-426614174000''),
             (''redirect'', JStr ''https://pay.example/x'')]"
  let ?E = "sample_env [] sample_response (Inr (JDict ?d))"
  have h1: "create_payment_payload ?E sample_self (str_of_decimal ?E ''10.00'')
              ''0f8fad5b-d9cb-469f-a165-70867728950e'' ''order'' = Inr sample_payload"
    by (simp add: create_payment_payload_def sample_env_def sample_float_of_str_def sample_self_def
          sample_gateway_def sample_payload_def DEFAULT_PAYMENT_METHOD_def)
  have h2: "http_post ?E (client sample_self) ''transaction/process'' sample_payload = Inr sample_response"
    by (simp add: sample_env_def)
  have h3: "200 \<le> status_code sample_response \<and> status_code sample_response < 300"
    by (simp add: sample_response_def)
  have h4: "json_loads ?E (content sample_response) = Inr (JDict ?d)"
    by (simp add: sample_env_def)
  have h5: "dict_get ?d ''transactionId'' = Some (JStr ''123e4567-e89b-12d3-a456-426614174000'')"
    by (simp add: dict_get_def)
  have h6: "''123e4567-e89b-12d3-a456-426614174000'' \<noteq> []"
    by simp
  have h7: "uuid_of_str ?E ''123e4567-e89b-12d3-a456-426614174000''
              = Inr 0x123e4567e89b12d3a456426614174000"
    by (simp add: sample_env_def sample_uuid_of_str_def)
  have h8: "dict_get ?d ''redirect'' = Some (JStr ''https://pay.example/x'')"
    by (simp add: dict_get_def)
  have h9: "''https://pay.example/x'' \<noteq> []"
    by simp
  from create_payment_result [OF h1 h2 h3 h4 h5 h6 h7 h8 h9] show ?thesis
    by blast
qed



end
